theory Spec2Isabelle
  imports Complex_Main
begin

section \<open>Python floats, as far as the notebook compares them\<close>

text \<open>
  The notebook's own code (everything that is not a call into esda, libpysal, pandas,
  scipy or scikit-learn) compares floats with \<open><\<close> and replaces marker values. A
  float is a finite value, an infinity or NaN. Finite values are embedded in the reals
  (every double is a real number, and comparing two doubles is comparing the reals they
  denote), and NaN compares false with everything, as in IEEE 754. No arithmetic on
  floats is modelled: the notebook's own code only compares and replaces them.
\<close>

datatype pyfloat = Fin real | PosInf | NegInf | NaN

text \<open>Python's \<open>a < b\<close> on floats.\<close>

fun float_lt :: "pyfloat \<Rightarrow> pyfloat \<Rightarrow> bool" where
  "float_lt NaN b = False"
| "float_lt a NaN = False"
| "float_lt (Fin a) (Fin b) = (a < b)"
| "float_lt (Fin a) PosInf = True"
| "float_lt NegInf (Fin b) = True"
| "float_lt NegInf PosInf = True"
| "float_lt a b = False"

text \<open>Python's \<open>a == b\<close> on floats: NaN is equal to nothing, not even to itself.\<close>

definition float_eq :: "pyfloat \<Rightarrow> pyfloat \<Rightarrow> bool" where
  "float_eq a b = (a \<noteq> NaN \<and> b \<noteq> NaN \<and> a = b)"

text \<open>Python's \<open>a >= b\<close> on floats.\<close>

definition float_ge :: "pyfloat \<Rightarrow> pyfloat \<Rightarrow> bool" where
  "float_ge a b = (float_lt b a \<or> float_eq a b)"

section \<open>The LISA label recoding (cells "Enter results of Bivariate LISA ...")\<close>

text \<open>
  The literal \<open>0.05\<close> of both loops denotes the double nearest to one twentieth, which
  is \<open>3602879701896397 / 2^56\<close>.
\<close>

definition alpha :: pyfloat where
  "alpha = Fin (3602879701896397 / 72057594037927936)"

text \<open>\<^verbatim>\<open>lm_dict = {1: 'HH', 2: 'LH', 3: 'LL', 4: 'HL'}\<close>\<close>

definition lm_dict :: "int \<rightharpoonup> string" where
  "lm_dict = [1 \<mapsto> ''HH'', 2 \<mapsto> ''LH'', 3 \<mapsto> ''LL'', 4 \<mapsto> ''HL'']"

datatype error = KeyError | IndexError

text \<open>
  The column \<open>LISA_CLS\<close> of a table, keyed by the index label of the row. Both tables
  carry the default index \<open>0, 1, ..., n - 1\<close> (the result of \<open>merge\<close> and of
  \<open>read_file\<close>). The column does not exist before the loop; a row that has not been
  assigned yet has no label.
\<close>

type_synonym column = "nat \<rightharpoonup> string"

subsection \<open>The loop over \<open>tract_gdf\<close>\<close>

text \<open>
  \<^verbatim>\<open>
  for idx in range(tract_gdf.shape[0]):
      if bv_lm.p_sim[idx] < 0.05:
          tract_gdf.loc[idx, f'LISA_CLS'] = lm_dict[bv_lm.q[idx]]
      else:
          tract_gdf.loc[idx, f'LISA_CLS'] = 'NA'
  \<close>
  \<open>bv_lm.p_sim\<close> and \<open>bv_lm.q\<close> are arrays; reading past their end raises IndexError,
  a code that is not a key of \<open>lm_dict\<close> raises KeyError, and either ends the loop.
\<close>

definition recode_gdf_step :: "pyfloat list \<Rightarrow> int list \<Rightarrow> nat \<Rightarrow> column \<Rightarrow> error + column" where
  "recode_gdf_step p_sim q idx col =
     (if idx < length p_sim then
        if float_lt (p_sim ! idx) alpha then
          (if idx < length q then
             (case lm_dict (q ! idx) of
                None \<Rightarrow> Inl KeyError
              | Some l \<Rightarrow> Inr (col(idx \<mapsto> l)))
           else Inl IndexError)
        else Inr (col(idx \<mapsto> ''NA''))
      else Inl IndexError)"

fun recode_gdf_loop :: "pyfloat list \<Rightarrow> int list \<Rightarrow> nat list \<Rightarrow> column \<Rightarrow> error + column" where
  "recode_gdf_loop p_sim q [] col = Inr col"
| "recode_gdf_loop p_sim q (idx # rest) col =
     (case recode_gdf_step p_sim q idx col of
        Inl e \<Rightarrow> Inl e
      | Inr col' \<Rightarrow> recode_gdf_loop p_sim q rest col')"

text \<open>\<open>n\<close> is \<open>tract_gdf.shape[0]\<close>, the number of rows of the table.\<close>

definition recode_gdf :: "nat \<Rightarrow> pyfloat list \<Rightarrow> int list \<Rightarrow> error + column" where
  "recode_gdf n p_sim q = recode_gdf_loop p_sim q [0..<n] Map.empty"

subsection \<open>The loop over \<open>tract_svi\<close>\<close>

text \<open>
  \<^verbatim>\<open>
  for idx, row in tract_svi.iterrows():
      if row['bv_lm_svi_pval'] < 0.05:
          tract_svi.loc[idx, f'LISA_CLS'] = lm_dict[row['bv_lm_svi']]
      else:
          tract_svi.loc[idx, f'LISA_CLS'] = 'NA'
  \<close>
  A row of \<open>tract_svi\<close> with the two columns the loop reads.
\<close>

record svi_row =
  bv_lm_svi :: int
  bv_lm_svi_pval :: pyfloat

text \<open>\<open>iterrows\<close> yields each row with its index label, in table order.\<close>

definition iterrows :: "'a list \<Rightarrow> (nat \<times> 'a) list" where
  "iterrows tbl = zip [0..<length tbl] tbl"

definition recode_svi_step :: "nat \<times> svi_row \<Rightarrow> column \<Rightarrow> error + column" where
  "recode_svi_step ir col =
     (case ir of (idx, row) \<Rightarrow>
        if float_lt (bv_lm_svi_pval row) alpha then
          (case lm_dict (bv_lm_svi row) of
             None \<Rightarrow> Inl KeyError
           | Some l \<Rightarrow> Inr (col(idx \<mapsto> l)))
        else Inr (col(idx \<mapsto> ''NA'')))"

fun recode_svi_loop :: "(nat \<times> svi_row) list \<Rightarrow> column \<Rightarrow> error + column" where
  "recode_svi_loop [] col = Inr col"
| "recode_svi_loop (ir # rest) col =
     (case recode_svi_step ir col of
        Inl e \<Rightarrow> Inl e
      | Inr col' \<Rightarrow> recode_svi_loop rest col')"

definition recode_svi :: "svi_row list \<Rightarrow> error + column" where
  "recode_svi tbl = recode_svi_loop (iterrows tbl) Map.empty"

text \<open>The five labels a cell of \<open>LISA_CLS\<close> may hold.\<close>

definition lisa_labels :: "string set" where
  "lisa_labels = {''HH'', ''LH'', ''LL'', ''HL'', ''NA''}"

text \<open>
  What one iteration writes for a region with code \<open>c\<close> and p-value \<open>p\<close>, when the
  code is a key of \<open>lm_dict\<close>.
\<close>

definition written :: "int \<Rightarrow> pyfloat \<Rightarrow> string option" where
  "written c p = (if float_lt p alpha then lm_dict c else Some ''NA'')"

text \<open>
  A run of the loop over a list of indices succeeds when every index is inside the
  p-value array and every significant region has a code in the array that is a key of
  \<open>lm_dict\<close>. It then overrides the column exactly at the indices visited.
\<close>

definition gdf_ok :: "pyfloat list \<Rightarrow> int list \<Rightarrow> nat \<Rightarrow> bool" where
  "gdf_ok p_sim q idx =
     (idx < length p_sim \<and>
      (float_lt (p_sim ! idx) alpha \<longrightarrow> idx < length q \<and> q ! idx \<in> {1, 2, 3, 4}))"

section \<open>Resolving missing values before the statistics\<close>

text \<open>\<open>fillna(v)\<close> on one cell of a float column.\<close>

definition fillna :: "pyfloat \<Rightarrow> pyfloat \<Rightarrow> pyfloat" where
  "fillna v x = (if x = NaN then v else x)"

text \<open>\<open>replace(old, new)\<close> on one numeric cell: the cells equal to \<open>old\<close> change.\<close>

definition replace_value :: "pyfloat \<Rightarrow> pyfloat \<Rightarrow> pyfloat \<Rightarrow> pyfloat" where
  "replace_value old new x = (if float_eq x old then new else x)"

text \<open>
  \<^verbatim>\<open>
  tract_pov['Poverty_ratio'] = tract_pov['Poverty_count'] / tract_pov['Pop']
  tract_pov['Poverty_ratio'] = tract_pov['Poverty_ratio'].fillna(0)
  \<close>
  A table is the list of its rows, each row keyed by its \<open>GEOID\<close>. The quotient column
  of the first line is computed by pandas in double arithmetic and never raises (a
  tract with no population and no count gets NaN); it is the input here, one float per
  row, whatever its value. The function is the second line and gives
  \<open>tract_pov[['GEOID', 'Poverty_ratio']]\<close>.
\<close>

definition Poverty_ratio :: "(string \<times> pyfloat) list \<Rightarrow> (string \<times> pyfloat) list" where
  "Poverty_ratio ratio = map (\<lambda>(geoid, v). (geoid, fillna (Fin 0) v)) ratio"

text \<open>
  \<^verbatim>\<open>tract_ins['No_HS_pct'].replace(-666666666.0, 0, inplace=True)\<close>
  The call acts on the column selected from \<open>tract_ins\<close>. Under pandas 1.x and 2.x the
  selection is the table's own column and the table changes; under the copy-on-write
  of pandas 3 the selection is a copy and the table keeps its values. The notebook
  pins no version, so the flag says which of the two runs. The function gives
  \<open>tract_ins[['GEOID', 'No_HS_pct']]\<close> after the call.
\<close>

definition No_HS_pct :: "bool \<Rightarrow> (string \<times> pyfloat) list \<Rightarrow> (string \<times> pyfloat) list" where
  "No_HS_pct copy_on_write tract_ins =
     (if copy_on_write then tract_ins
      else map (\<lambda>(geoid, v). (geoid, replace_value (Fin (- 666666666)) (Fin 0) v)) tract_ins)"

text \<open>
  \<open>left.merge(right, on='GEOID')\<close>: the inner join, in the order of the left rows, each
  left row paired with every right row of the same key.
\<close>

definition merge_on :: "('k \<times> 'a) list \<Rightarrow> ('k \<times> 'b) list \<Rightarrow> ('k \<times> 'a \<times> 'b) list" where
  "merge_on left right =
     concat (map (\<lambda>(k, a). map (\<lambda>(k', b). (k, a, b)) (filter (\<lambda>(k', b). k' = k) right)) left)"

text \<open>
  \<^verbatim>\<open>
  tract_gdf = tract_geom.merge(tract_ins[['GEOID', 'No_HS_pct']], on='GEOID')
  tract_gdf = tract_gdf.merge(tract_pov[['GEOID', 'Poverty_ratio']], on='GEOID')
  \<close>
  A row of the result is \<open>(GEOID, (geometry columns, No_HS_pct), Poverty_ratio)\<close>.
\<close>

definition tract_gdf ::
  "bool \<Rightarrow> (string \<times> 'g) list \<Rightarrow> (string \<times> pyfloat) list \<Rightarrow> (string \<times> pyfloat) list
     \<Rightarrow> (string \<times> ('g \<times> pyfloat) \<times> pyfloat) list" where
  "tract_gdf copy_on_write tract_geom tract_ins ratio =
     merge_on (merge_on tract_geom (No_HS_pct copy_on_write tract_ins)) (Poverty_ratio ratio)"

text \<open>
  The two sequences handed to \<open>pearsonr\<close>, \<open>esda.Moran_BV\<close> and
  \<open>esda.Moran_Local_BV\<close>: \<open>tract_gdf['Poverty_ratio']\<close> and \<open>tract_gdf['No_HS_pct']\<close>.
\<close>

definition gdf_Poverty_ratio :: "(string \<times> ('g \<times> pyfloat) \<times> pyfloat) list \<Rightarrow> pyfloat list" where
  "gdf_Poverty_ratio gdf = map (\<lambda>(geoid, (g, ins), pov). pov) gdf"

definition gdf_No_HS_pct :: "(string \<times> ('g \<times> pyfloat) \<times> pyfloat) list \<Rightarrow> pyfloat list" where
  "gdf_No_HS_pct gdf = map (\<lambda>(geoid, (g, ins), pov). ins) gdf"

text \<open>
  \<^verbatim>\<open>tract_svi = tract_svi.replace(-999, 0)\<close>
  The numeric columns of the SVI table, by name; \<open>replace\<close> visits every cell.
\<close>

type_synonym frame = "(string \<times> pyfloat list) list"

definition replace_frame :: "pyfloat \<Rightarrow> pyfloat \<Rightarrow> frame \<Rightarrow> frame" where
  "replace_frame old new df = map (\<lambda>(name, vals). (name, map (replace_value old new) vals)) df"

definition tract_svi :: "frame \<Rightarrow> frame" where
  "tract_svi raw = replace_frame (Fin (- 999)) (Fin 0) raw"

text \<open>
  The values the specification calls undefined or missing: NaN and the two null codes.
\<close>

definition missing_value :: "pyfloat \<Rightarrow> bool" where
  "missing_value v = (v = NaN \<or> float_eq v (Fin (- 666666666)) \<or> float_eq v (Fin (- 999)))"

section \<open>Facts about float comparison\<close>

lemma float_lt_irrefl: "\<not> float_lt a a"
  by (cases a) simp_all

lemma float_ge_not_lt: "float_ge a b \<Longrightarrow> \<not> float_lt a b"
  by (cases a; cases b) (auto simp: float_ge_def float_eq_def)

lemma lm_dict_dom: "dom lm_dict = {1, 2, 3, 4}"
  by (auto simp: lm_dict_def split: if_splits)

lemma lm_dict_labels: "lm_dict c = Some l \<Longrightarrow> l \<in> lisa_labels"
  by (auto simp: lm_dict_def lisa_labels_def split: if_splits)

section \<open>The loop over \<open>tract_gdf\<close> as a whole\<close>

lemma recode_gdf_step_ok:
  assumes "gdf_ok p_sim q idx"
  shows "recode_gdf_step p_sim q idx col = Inr (col(idx := written (q ! idx) (p_sim ! idx)))"
proof (cases "float_lt (p_sim ! idx) alpha")
  case True
  with assms have "q ! idx \<in> dom lm_dict" and "idx < length q" and "idx < length p_sim"
    by (simp_all add: gdf_ok_def lm_dict_dom)
  with True show ?thesis
    by (auto simp: recode_gdf_step_def written_def)
next
  case False
  with assms show ?thesis
    by (simp add: recode_gdf_step_def written_def gdf_ok_def)
qed

lemma recode_gdf_loop_ok:
  assumes "\<forall>idx \<in> set idxs. gdf_ok p_sim q idx"
  shows "recode_gdf_loop p_sim q idxs col =
           Inr (\<lambda>i. if i \<in> set idxs then written (q ! i) (p_sim ! i) else col i)"
  using assms
proof (induction idxs arbitrary: col)
  case Nil
  show ?case by simp
next
  case (Cons idx rest)
  have step: "recode_gdf_step p_sim q idx col =
                Inr (col(idx := written (q ! idx) (p_sim ! idx)))"
    using Cons.prems by (simp add: recode_gdf_step_ok)
  have "recode_gdf_loop p_sim q rest (col(idx := written (q ! idx) (p_sim ! idx))) =
          Inr (\<lambda>i. if i \<in> set rest then written (q ! i) (p_sim ! i)
                   else (col(idx := written (q ! idx) (p_sim ! idx))) i)"
    using Cons.prems by (intro Cons.IH) simp
  with step show ?case
    by (auto simp: fun_eq_iff)
qed

lemma recode_gdf_ok:
  assumes "\<forall>idx < n. gdf_ok p_sim q idx"
  shows "recode_gdf n p_sim q =
           Inr (\<lambda>i. if i < n then written (q ! i) (p_sim ! i) else None)"
  using recode_gdf_loop_ok [of "[0..<n]" p_sim q Map.empty] assms
  by (simp add: recode_gdf_def)

section \<open>The two loops compute the same column\<close>

lemma iterrows_nth: "iterrows tbl = map (\<lambda>i. (i, tbl ! i)) [0..<length tbl]"
  unfolding iterrows_def
  by (rule nth_equalityI) simp_all

lemma recode_svi_step_gdf:
  assumes "i < length tbl"
  shows "recode_svi_step (i, tbl ! i) col =
           recode_gdf_step (map bv_lm_svi_pval tbl) (map bv_lm_svi tbl) i col"
  using assms by (simp add: recode_svi_step_def recode_gdf_step_def)

lemma recode_svi_loop_gdf:
  assumes "\<forall>i \<in> set idxs. i < length tbl"
  shows "recode_svi_loop (map (\<lambda>i. (i, tbl ! i)) idxs) col =
           recode_gdf_loop (map bv_lm_svi_pval tbl) (map bv_lm_svi tbl) idxs col"
  using assms
proof (induction idxs arbitrary: col)
  case Nil
  show ?case by simp
next
  case (Cons i rest)
  then have "i < length tbl" and "\<forall>j \<in> set rest. j < length tbl"
    by simp_all
  then show ?case
    using Cons.IH by (simp add: recode_svi_step_gdf split: sum.splits)
qed

text \<open>
  C2. The loop over \<open>tract_svi\<close> and the loop over \<open>tract_gdf\<close> are the same function
  of the quadrant codes and p-values: run on a table, the first gives the result (the
  same labels at the same rows, or the same error) that the second gives on the arrays
  holding that table's two columns. Neither loop looks at anything else.
\<close>

theorem recode_svi_eq_recode_gdf:
  "recode_svi tbl =
     recode_gdf (length tbl) (map bv_lm_svi_pval tbl) (map bv_lm_svi tbl)"
  using recode_svi_loop_gdf [of "[0..<length tbl]" tbl Map.empty]
  by (simp add: recode_svi_def recode_gdf_def iterrows_nth)

text \<open>
  C1. In the loop over \<open>tract_gdf\<close> the label of a region is a function of its
  quadrant code and its p-value alone (the threshold being the constant 0.05): the
  loop returns a column in which every region with \<open>p_sim >= 0.05\<close> is labelled
  \<open>NA\<close> whatever its code, and every region with \<open>p_sim < 0.05\<close> carries the image of
  its code under \<open>{1: HH, 2: LH, 3: LL, 4: HL}\<close>. The arrays cover the table and the
  significant regions have codes 1 to 4.
\<close>

theorem recode_gdf_label:
  assumes "n \<le> length p_sim" and "n \<le> length q"
    and "\<forall>i < n. float_lt (p_sim ! i) alpha \<longrightarrow> q ! i \<in> {1, 2, 3, 4}"
  shows "\<exists>col. recode_gdf n p_sim q = Inr col \<and>
           (\<forall>idx < n.
              col idx = written (q ! idx) (p_sim ! idx) \<and>
              (float_ge (p_sim ! idx) alpha \<longrightarrow> col idx = Some ''NA'') \<and>
              (float_lt (p_sim ! idx) alpha \<longrightarrow>
                 col idx = [1 \<mapsto> ''HH'', 2 \<mapsto> ''LH'', 3 \<mapsto> ''LL'', 4 \<mapsto> ''HL''] (q ! idx)))"
proof -
  have ok: "\<forall>idx < n. gdf_ok p_sim q idx"
    using assms by (simp add: gdf_ok_def)
  let ?col = "\<lambda>i. if i < n then written (q ! i) (p_sim ! i) else None"
  have run: "recode_gdf n p_sim q = Inr ?col"
    using ok by (rule recode_gdf_ok)
  have "?col idx = written (q ! idx) (p_sim ! idx) \<and>
        (float_ge (p_sim ! idx) alpha \<longrightarrow> ?col idx = Some ''NA'') \<and>
        (float_lt (p_sim ! idx) alpha \<longrightarrow>
           ?col idx = [1 \<mapsto> ''HH'', 2 \<mapsto> ''LH'', 3 \<mapsto> ''LL'', 4 \<mapsto> ''HL''] (q ! idx))"
    if "idx < n" for idx
    using that float_ge_not_lt [of "p_sim ! idx" alpha]
    by (auto simp: written_def lm_dict_def)
  with run show ?thesis by blast
qed

theorem recode_gdf_label_witness:
  "4 \<le> length [Fin (1 / 1000), alpha, Fin (11 / 1000), NaN] \<and>
   4 \<le> length [1, 2, 3, 7 :: int] \<and>
   (\<exists>col. recode_gdf 4 [Fin (1 / 1000), alpha, Fin (11 / 1000), NaN] [1, 2, 3, 7] = Inr col \<and>
      col 0 = Some ''HH'' \<and> col 1 = Some ''NA'' \<and> col 2 = Some ''LL'' \<and> col 3 = Some ''NA'')"
proof -
  let ?p = "[Fin (1 / 1000), alpha, Fin (11 / 1000), NaN]"
  let ?q = "[1, 2, 3, 7 :: int]"
  have h: "\<forall>i < 4. float_lt (?p ! i) alpha \<longrightarrow> ?q ! i \<in> {1, 2, 3, 4}"
    by (simp add: less_Suc_eq numeral_eq_Suc float_lt_irrefl nth_Cons' alpha_def)
  obtain col where run: "recode_gdf 4 ?p ?q = Inr col"
    and lab: "\<forall>idx < 4. col idx = written (?q ! idx) (?p ! idx)"
    using recode_gdf_label [of 4 ?p ?q] h by auto
  have "col 0 = Some ''HH''" "col 1 = Some ''NA''" "col 2 = Some ''LL''" "col 3 = Some ''NA''"
    using lab by (simp_all add: written_def lm_dict_def alpha_def)
  with run show ?thesis by simp
qed

theorem recode_svi_eq_recode_gdf_witness:
  "recode_svi [\<lparr>bv_lm_svi = 4, bv_lm_svi_pval = Fin (103 / 1000)\<rparr>,
               \<lparr>bv_lm_svi = 3, bv_lm_svi_pval = Fin (11 / 1000)\<rparr>]
     = recode_gdf 2 [Fin (103 / 1000), Fin (11 / 1000)] [4, 3] \<and>
   recode_svi [\<lparr>bv_lm_svi = 4, bv_lm_svi_pval = Fin (103 / 1000)\<rparr>,
               \<lparr>bv_lm_svi = 3, bv_lm_svi_pval = Fin (11 / 1000)\<rparr>]
     = Inr [0 \<mapsto> ''NA'', 1 \<mapsto> ''LL'']"
proof -
  let ?tbl = "[\<lparr>bv_lm_svi = 4, bv_lm_svi_pval = Fin (103 / 1000)\<rparr>,
               \<lparr>bv_lm_svi = 3, bv_lm_svi_pval = Fin (11 / 1000)\<rparr>]"
  have e: "recode_svi ?tbl = recode_gdf 2 [Fin (103 / 1000), Fin (11 / 1000)] [4, 3]"
    using recode_svi_eq_recode_gdf [of ?tbl] by (simp add: numeral_2_eq_2)
  have v: "recode_svi ?tbl = Inr [0 \<mapsto> ''NA'', 1 \<mapsto> ''LL'']"
    by (simp add: recode_svi_def iterrows_def recode_svi_step_def alpha_def lm_dict_def
        numeral_2_eq_2)
  from e v show ?thesis by simp
qed

text \<open>
  C10. Both loops are total and exclusive. When the significant regions carry codes 1
  to 4 (and, for the loop over \<open>tract_gdf\<close>, the arrays cover the table), the loop
  returns a column defined exactly on the row indices of the table, every row holds
  exactly one label and that label is one of \<open>HH\<close>, \<open>LH\<close>, \<open>LL\<close>, \<open>HL\<close>, \<open>NA\<close>, and
  a row whose comparison \<open>p_sim < 0.05\<close> does not hold (in particular one whose p-value
  is the threshold itself) holds \<open>NA\<close>.
\<close>

theorem lisa_cls_total_exclusive:
  assumes "n \<le> length p_sim" and "n \<le> length q"
    and "\<forall>i < n. float_lt (p_sim ! i) alpha \<longrightarrow> q ! i \<in> {1, 2, 3, 4}"
    and "\<forall>row \<in> set tbl. float_lt (bv_lm_svi_pval row) alpha \<longrightarrow> bv_lm_svi row \<in> {1, 2, 3, 4}"
  shows "(\<exists>col. recode_gdf n p_sim q = Inr col \<and> dom col = {0..<n} \<and>
            (\<forall>idx < n. \<exists>!l. l \<in> lisa_labels \<and> col idx = Some l) \<and>
            (\<forall>idx < n. \<not> float_lt (p_sim ! idx) alpha \<longrightarrow> col idx = Some ''NA'') \<and>
            (\<forall>idx < n. p_sim ! idx = alpha \<longrightarrow> col idx = Some ''NA'')) \<and>
         (\<exists>col. recode_svi tbl = Inr col \<and> dom col = {0..<length tbl} \<and>
            (\<forall>idx < length tbl. \<exists>!l. l \<in> lisa_labels \<and> col idx = Some l) \<and>
            (\<forall>idx < length tbl. \<not> float_lt (bv_lm_svi_pval (tbl ! idx)) alpha
                \<longrightarrow> col idx = Some ''NA'') \<and>
            (\<forall>idx < length tbl. bv_lm_svi_pval (tbl ! idx) = alpha \<longrightarrow> col idx = Some ''NA''))"
proof -
  have gdf: "\<exists>col. recode_gdf m p c = Inr col \<and> dom col = {0..<m} \<and>
            (\<forall>idx < m. \<exists>!l. l \<in> lisa_labels \<and> col idx = Some l) \<and>
            (\<forall>idx < m. \<not> float_lt (p ! idx) alpha \<longrightarrow> col idx = Some ''NA'') \<and>
            (\<forall>idx < m. p ! idx = alpha \<longrightarrow> col idx = Some ''NA'')"
    if len: "m \<le> length p" "m \<le> length c"
      and codes: "\<forall>i < m. float_lt (p ! i) alpha \<longrightarrow> c ! i \<in> {1, 2, 3, 4}"
    for m p c
  proof -
    let ?col = "\<lambda>i. if i < m then written (c ! i) (p ! i) else None"
    have "\<forall>idx < m. gdf_ok p c idx"
      using len codes by (simp add: gdf_ok_def)
    then have run: "recode_gdf m p c = Inr ?col"
      by (rule recode_gdf_ok)
    have lab: "\<exists>l. l \<in> lisa_labels \<and> written (c ! idx) (p ! idx) = Some l" if "idx < m" for idx
    proof (cases "float_lt (p ! idx) alpha")
      case True
      with codes that have "c ! idx \<in> dom lm_dict" by (simp add: lm_dict_dom)
      then obtain l where "lm_dict (c ! idx) = Some l" by blast
      with True show ?thesis by (auto simp: written_def dest: lm_dict_labels)
    next
      case False
      then show ?thesis by (simp add: written_def lisa_labels_def)
    qed
    have d: "dom ?col = {0..<m}"
      using lab by (auto simp: dom_def split: if_splits)
    have u: "\<forall>idx < m. \<exists>!l. l \<in> lisa_labels \<and> ?col idx = Some l"
      using lab by auto
    have na: "\<forall>idx < m. \<not> float_lt (p ! idx) alpha \<longrightarrow> ?col idx = Some ''NA''"
      by (simp add: written_def)
    have eq: "\<forall>idx < m. p ! idx = alpha \<longrightarrow> ?col idx = Some ''NA''"
      by (simp add: written_def float_lt_irrefl)
    from run d u na eq show ?thesis by blast
  qed
  have svi: "recode_svi tbl = recode_gdf (length tbl) (map bv_lm_svi_pval tbl) (map bv_lm_svi tbl)"
    using recode_svi_loop_gdf [of "[0..<length tbl]" tbl Map.empty]
    by (simp add: recode_svi_def recode_gdf_def iterrows_nth)
  have "\<forall>i < length tbl. float_lt (map bv_lm_svi_pval tbl ! i) alpha
          \<longrightarrow> map bv_lm_svi tbl ! i \<in> {1, 2, 3, 4}"
    using assms(4) by simp
  from gdf [of "length tbl" "map bv_lm_svi_pval tbl" "map bv_lm_svi tbl", OF _ _ this]
  have "\<exists>col. recode_svi tbl = Inr col \<and> dom col = {0..<length tbl} \<and>
            (\<forall>idx < length tbl. \<exists>!l. l \<in> lisa_labels \<and> col idx = Some l) \<and>
            (\<forall>idx < length tbl. \<not> float_lt (bv_lm_svi_pval (tbl ! idx)) alpha
                \<longrightarrow> col idx = Some ''NA'') \<and>
            (\<forall>idx < length tbl. bv_lm_svi_pval (tbl ! idx) = alpha \<longrightarrow> col idx = Some ''NA'')"
    unfolding svi by simp
  with gdf [OF assms(1-3)] show ?thesis by blast
qed

theorem lisa_cls_total_exclusive_witness:
  "3 \<le> length [Fin (1 / 1000), alpha, NaN] \<and> 3 \<le> length [4, 1, 9 :: int] \<and>
   (\<exists>col. recode_gdf 3 [Fin (1 / 1000), alpha, NaN] [4, 1, 9] = Inr col \<and>
      dom col = {0..<3} \<and> col 1 = Some ''NA'' \<and> col 2 = Some ''NA'') \<and>
   (\<exists>col. recode_svi [\<lparr>bv_lm_svi = 2, bv_lm_svi_pval = Fin (3 / 1000)\<rparr>,
                       \<lparr>bv_lm_svi = 0, bv_lm_svi_pval = alpha\<rparr>] = Inr col \<and>
      dom col = {0..<2} \<and> col 1 = Some ''NA'')"
proof -
  let ?p = "[Fin (1 / 1000), alpha, NaN]"
  let ?q = "[4, 1, 9 :: int]"
  let ?tbl = "[\<lparr>bv_lm_svi = 2, bv_lm_svi_pval = Fin (3 / 1000)\<rparr>,
               \<lparr>bv_lm_svi = 0, bv_lm_svi_pval = alpha\<rparr>]"
  have h1: "\<forall>i < 3. float_lt (?p ! i) alpha \<longrightarrow> ?q ! i \<in> {1, 2, 3, 4}"
    by (simp add: less_Suc_eq numeral_eq_Suc float_lt_irrefl nth_Cons' alpha_def)
  have h2: "\<forall>row \<in> set ?tbl. float_lt (bv_lm_svi_pval row) alpha
              \<longrightarrow> bv_lm_svi row \<in> {1, 2, 3, 4}"
    by (simp add: float_lt_irrefl)
  have l1: "3 \<le> length ?p" and l2: "3 \<le> length ?q"
    by simp_all
  note run = lisa_cls_total_exclusive [OF l1 l2 h1 h2]
  from run obtain col where c: "recode_gdf 3 ?p ?q = Inr col" "dom col = {0..<3}"
    "\<forall>idx < 3. \<not> float_lt (?p ! idx) alpha \<longrightarrow> col idx = Some ''NA''"
    by blast
  from c(3) have "col 1 = Some ''NA''" "col 2 = Some ''NA''"
    by (simp_all add: float_lt_irrefl)
  with c have g: "\<exists>col. recode_gdf 3 ?p ?q = Inr col \<and> dom col = {0..<3} \<and>
                   col 1 = Some ''NA'' \<and> col 2 = Some ''NA''"
    by blast
  from run obtain col' where c': "recode_svi ?tbl = Inr col'" "dom col' = {0..<length ?tbl}"
    "\<forall>idx < length ?tbl. bv_lm_svi_pval (?tbl ! idx) = alpha \<longrightarrow> col' idx = Some ''NA''"
    by blast
  from c'(3) have "col' 1 = Some ''NA''"
    by simp
  with c' have s: "\<exists>col. recode_svi ?tbl = Inr col \<and> dom col = {0..<2} \<and> col 1 = Some ''NA''"
    by auto
  from g s show ?thesis
    by simp
qed

section \<open>Missing values and the sequences that enter the statistics\<close>

text \<open>
  Cleaning a column changes values only, and a join looks at keys only, so cleaning
  before the joins is cleaning the joined table cell by cell.
\<close>

lemma float_eq_Fin: "float_eq x (Fin r) \<longleftrightarrow> x = Fin r"
  by (auto simp: float_eq_def)

lemma fillna_zero: "fillna (Fin 0) v = (if v = NaN then Fin 0 else v)"
  by (simp add: fillna_def)

lemma replace_value_Fin:
  "replace_value (Fin r) new v = (if v = Fin r then new else v)"
  by (simp add: replace_value_def float_eq_Fin)

lemma merge_on_map_right:
  "merge_on left (map (\<lambda>(k, b). (k, f b)) right)
     = map (\<lambda>(k, a, b). (k, a, f b)) (merge_on left right)"
  by (induction left)
     (auto simp: merge_on_def filter_map comp_def split_def)

lemma merge_on_map_left:
  "merge_on (map (\<lambda>(k, a). (k, f a)) left) right
     = map (\<lambda>(k, a, b). (k, f a, b)) (merge_on left right)"
  by (induction left)
     (auto simp: merge_on_def comp_def split_def)

lemma Poverty_ratio_cells:
  "Poverty_ratio R = map (\<lambda>(geoid, v). (geoid, if v = NaN then Fin 0 else v)) R"
  by (simp add: Poverty_ratio_def fillna_zero)

lemma No_HS_pct_cells:
  "No_HS_pct False I
     = map (\<lambda>(geoid, v). (geoid, if v = Fin (- 666666666) then Fin 0 else v)) I"
  by (simp add: No_HS_pct_def replace_value_Fin)

lemma No_HS_pct_copy_on_write: "No_HS_pct True I = I"
  by (simp add: No_HS_pct_def)

lemma tract_gdf_in_place:
  "tract_gdf False G I R
     = map (\<lambda>(geoid, (g, ins), pov).
              (geoid, (g, if ins = Fin (- 666666666) then Fin 0 else ins),
               if pov = NaN then Fin 0 else pov))
           (merge_on (merge_on G I) R)"
proof -
  let ?ins = "\<lambda>v. if v = Fin (- 666666666) then Fin 0 else v"
  let ?pov = "\<lambda>v. if v = NaN then Fin 0 else v"
  have "merge_on G (No_HS_pct False I) = map (\<lambda>(k, g, v). (k, g, ?ins v)) (merge_on G I)"
    unfolding No_HS_pct_cells by (rule merge_on_map_right)
  also have "\<dots> = map (\<lambda>(k, a). (k, (\<lambda>(g, v). (g, ?ins v)) a)) (merge_on G I)"
    by (simp add: split_def)
  finally have inner: "merge_on G (No_HS_pct False I)
      = map (\<lambda>(k, a). (k, (\<lambda>(g, v). (g, ?ins v)) a)) (merge_on G I)" .
  have "tract_gdf False G I R
      = map (\<lambda>(k, a, b). (k, a, ?pov b)) (merge_on (merge_on G (No_HS_pct False I)) R)"
    unfolding tract_gdf_def Poverty_ratio_cells by (rule merge_on_map_right)
  also have "merge_on (merge_on G (No_HS_pct False I)) R
      = map (\<lambda>(k, a, b). (k, (\<lambda>(g, v). (g, ?ins v)) a, b)) (merge_on (merge_on G I) R)"
    unfolding inner by (rule merge_on_map_left)
  finally show ?thesis
    by (simp add: split_def comp_def)
qed

lemma tract_gdf_copy_on_write:
  "tract_gdf True G I R
     = map (\<lambda>(geoid, (g, ins), pov). (geoid, (g, ins), if pov = NaN then Fin 0 else pov))
           (merge_on (merge_on G I) R)"
proof -
  have "tract_gdf True G I R
      = map (\<lambda>(k, a, b). (k, a, if b = NaN then Fin 0 else b)) (merge_on (merge_on G I) R)"
    unfolding tract_gdf_def Poverty_ratio_cells No_HS_pct_copy_on_write
    by (rule merge_on_map_right)
  then show ?thesis
    by (simp add: split_def)
qed

lemma gdf_Poverty_ratio_cells:
  "gdf_Poverty_ratio (tract_gdf cow G I R)
     = map (\<lambda>v. if v = NaN then Fin 0 else v) (gdf_Poverty_ratio (merge_on (merge_on G I) R))"
  by (cases cow)
     (simp_all add: tract_gdf_in_place tract_gdf_copy_on_write gdf_Poverty_ratio_def
        split_def comp_def)

lemma gdf_No_HS_pct_cells:
  "gdf_No_HS_pct (tract_gdf False G I R)
     = map (\<lambda>v. if v = Fin (- 666666666) then Fin 0 else v)
           (gdf_No_HS_pct (merge_on (merge_on G I) R))"
  by (simp add: tract_gdf_in_place gdf_No_HS_pct_def split_def comp_def)

lemma tract_svi_names: "map fst (tract_svi raw) = map fst raw"
  by (simp add: tract_svi_def replace_frame_def split_def comp_def)

lemma tract_svi_cells:
  "map snd (tract_svi raw)
     = map (map (\<lambda>x. if x = Fin (- 999) then Fin 0 else x)) (map snd raw)"
  by (simp add: tract_svi_def replace_frame_def split_def comp_def replace_value_Fin)

text \<open>
  C9, as the code has it. Each table's own marker, and nothing else, is replaced by 0
  before any statistic sees the column. \<open>fillna(0)\<close> turns each NaN of the ratio column
  into 0 and keeps every other cell. Where the in-place \<open>replace\<close> reaches
  \<open>tract_ins\<close> (pandas 1.x and 2.x), each \<open>-666666666.0\<close> of \<open>No_HS_pct\<close> becomes
  0 and every other cell, a NaN included, is kept. The two sequences of \<open>tract_gdf\<close>
  handed to the statistics are, position by position, the joined raw columns cleaned
  in that way, so the first holds no NaN and the second no \<open>-666666666.0\<close>. In
  \<open>tract_svi\<close> every column keeps its name, each cell is 0 where it was \<open>-999\<close> and
  unchanged otherwise, and no column holds \<open>-999\<close>.
\<close>

theorem own_markers_resolved:
  "Poverty_ratio R = map (\<lambda>(geoid, v). (geoid, if v = NaN then Fin 0 else v)) R \<and>
   No_HS_pct False I
     = map (\<lambda>(geoid, v). (geoid, if v = Fin (- 666666666) then Fin 0 else v)) I \<and>
   gdf_Poverty_ratio (tract_gdf cow G I R)
     = map (\<lambda>v. if v = NaN then Fin 0 else v) (gdf_Poverty_ratio (merge_on (merge_on G I) R)) \<and>
   gdf_No_HS_pct (tract_gdf False G I R)
     = map (\<lambda>v. if v = Fin (- 666666666) then Fin 0 else v)
           (gdf_No_HS_pct (merge_on (merge_on G I) R)) \<and>
   map fst (tract_svi raw) = map fst raw \<and>
   map snd (tract_svi raw)
     = map (map (\<lambda>x. if x = Fin (- 999) then Fin 0 else x)) (map snd raw) \<and>
   NaN \<notin> set (gdf_Poverty_ratio (tract_gdf cow G I R)) \<and>
   Fin (- 666666666) \<notin> set (gdf_No_HS_pct (tract_gdf False G I R)) \<and>
   (\<forall>(name, vals) \<in> set (tract_svi raw). Fin (- 999) \<notin> set vals)"
proof -
  have a: "NaN \<notin> set (gdf_Poverty_ratio (tract_gdf cow G I R))"
    unfolding gdf_Poverty_ratio_cells by auto
  have b: "Fin (- 666666666) \<notin> set (gdf_No_HS_pct (tract_gdf False G I R))"
    unfolding gdf_No_HS_pct_cells by auto
  have c: "\<forall>(name, vals) \<in> set (tract_svi raw). Fin (- 999) \<notin> set vals"
  proof (clarify)
    fix name vals
    assume "(name, vals) \<in> set (tract_svi raw)" and mem: "Fin (- 999) \<in> set vals"
    then have "vals \<in> set (map snd (tract_svi raw))"
      by force
    with mem show False
      unfolding tract_svi_cells by auto
  qed
  show ?thesis
    using Poverty_ratio_cells [of R] No_HS_pct_cells [of I] gdf_Poverty_ratio_cells [of cow G I R]
      gdf_No_HS_pct_cells [of G I R] tract_svi_names [of raw] tract_svi_cells [of raw] a b c
    by blast
qed

theorem own_markers_resolved_witness:
  "(''RPL_THEME1'', [Fin 0, Fin (1 / 2), NaN])
     \<in> set (tract_svi [(''RPL_THEME1'', [Fin (- 999), Fin (1 / 2), NaN])]) \<and>
   Fin (- 999) \<notin> set [Fin 0, Fin (1 / 2), NaN] \<and>
   gdf_Poverty_ratio
     (tract_gdf False [(''17031010201'', ()), (''17031010100'', ())]
        [(''17031010100'', Fin (- 666666666)), (''17031010201'', Fin (13 / 2))]
        [(''17031010100'', NaN), (''17031010201'', Fin (1 / 4))]) = [Fin (1 / 4), Fin 0] \<and>
   gdf_No_HS_pct
     (tract_gdf False [(''17031010201'', ()), (''17031010100'', ())]
        [(''17031010100'', Fin (- 666666666)), (''17031010201'', Fin (13 / 2))]
        [(''17031010100'', NaN), (''17031010201'', Fin (1 / 4))]) = [Fin (13 / 2), Fin 0]"
proof -
  let ?raw = "[(''RPL_THEME1'', [Fin (- 999), Fin (1 / 2), NaN])]"
  let ?G = "[(''17031010201'', ()), (''17031010100'', ())]"
  let ?I = "[(''17031010100'', Fin (- 666666666)), (''17031010201'', Fin (13 / 2))]"
  let ?R = "[(''17031010100'', NaN), (''17031010201'', Fin (1 / 4))]"
  have j: "merge_on (merge_on ?G ?I) ?R
             = [(''17031010201'', ((), Fin (13 / 2)), Fin (1 / 4)),
                (''17031010100'', ((), Fin (- 666666666)), NaN)]"
    by (simp add: merge_on_def)
  note r = own_markers_resolved [of ?R ?I False ?G ?raw]
  from r have "\<forall>(name, vals) \<in> set (tract_svi ?raw). Fin (- 999) \<notin> set vals"
    by blast
  moreover from r have "map fst (tract_svi ?raw) = map fst ?raw"
    and "map snd (tract_svi ?raw)
           = map (map (\<lambda>x. if x = Fin (- 999) then Fin 0 else x)) (map snd ?raw)"
    by blast+
  then have m: "(''RPL_THEME1'', [Fin 0, Fin (1 / 2), NaN]) \<in> set (tract_svi ?raw)"
    by (cases "tract_svi ?raw") auto
  moreover from r have "gdf_Poverty_ratio (tract_gdf False ?G ?I ?R)
      = map (\<lambda>v. if v = NaN then Fin 0 else v) (gdf_Poverty_ratio (merge_on (merge_on ?G ?I) ?R))"
    by blast
  then have "gdf_Poverty_ratio (tract_gdf False ?G ?I ?R) = [Fin (1 / 4), Fin 0]"
    unfolding j by (simp add: gdf_Poverty_ratio_def)
  moreover from r have "gdf_No_HS_pct (tract_gdf False ?G ?I ?R)
      = map (\<lambda>v. if v = Fin (- 666666666) then Fin 0 else v)
            (gdf_No_HS_pct (merge_on (merge_on ?G ?I) ?R))"
    by blast
  then have "gdf_No_HS_pct (tract_gdf False ?G ?I ?R) = [Fin (13 / 2), Fin 0]"
    unfolding j by (simp add: gdf_No_HS_pct_def)
  ultimately show ?thesis
    by auto
qed

text \<open>
  C9, as the specification words it, fails: a NaN in the retrieved \<open>No_HS_pct\<close> column
  is not a value that \<open>replace(-666666666.0, 0)\<close> touches, so it reaches
  \<open>pearsonr\<close> and \<open>Moran_BV\<close> unresolved, under either behaviour of the in-place call.
\<close>

theorem missing_value_reaches_statistic:
  "gdf_No_HS_pct
     (tract_gdf False [(''17031010100'', ()), (''17031010201'', ())]
        [(''17031010100'', Fin (- 666666666)), (''17031010201'', NaN)]
        [(''17031010100'', Fin (1 / 4)), (''17031010201'', NaN)]) = [Fin 0, NaN] \<and>
   list_ex missing_value
     (gdf_No_HS_pct
       (tract_gdf False [(''17031010100'', ()), (''17031010201'', ())]
          [(''17031010100'', Fin (- 666666666)), (''17031010201'', NaN)]
          [(''17031010100'', Fin (1 / 4)), (''17031010201'', NaN)])) \<and>
   gdf_No_HS_pct
     (tract_gdf True [(''17031010100'', ()), (''17031010201'', ())]
        [(''17031010100'', Fin (- 666666666)), (''17031010201'', NaN)]
        [(''17031010100'', Fin (1 / 4)), (''17031010201'', NaN)]) = [Fin (- 666666666), NaN] \<and>
   list_ex missing_value
     (gdf_No_HS_pct
       (tract_gdf True [(''17031010100'', ()), (''17031010201'', ())]
          [(''17031010100'', Fin (- 666666666)), (''17031010201'', NaN)]
          [(''17031010100'', Fin (1 / 4)), (''17031010201'', NaN)]))"
  by (simp add: gdf_No_HS_pct_def tract_gdf_def merge_on_def No_HS_pct_def Poverty_ratio_def
      replace_value_def float_eq_def fillna_def missing_value_def)

end
